theory Spec2Isabelle
  imports Main "HOL-Library.Word"
begin

section \<open>JavaScript strings and values\<close>

text \<open>
  A JavaScript string is a sequence of 16-bit code units. The component only compares
  strings, trims them, tests them for truthiness and concatenates them, all of which
  are defined on code units.
\<close>

type_synonym jsstring = "16 word list"

text \<open>An ASCII literal of the source, as code units.\<close>

definition str :: "string \<Rightarrow> jsstring" where
  "str cs = map (\<lambda>c. of_nat (of_char c :: nat)) cs"

text \<open>
  \<^verbatim>\<open>String.prototype.trim\<close> removes the ECMAScript WhiteSpace and LineTerminator code
  points from both ends: TAB, LF, VT, FF, CR, SPACE, NBSP, U+1680, U+2000 to U+200A,
  U+2028, U+2029, U+202F, U+205F, U+3000 and U+FEFF. All of them are single code units.
\<close>

definition isWhiteSpace :: "16 word \<Rightarrow> bool" where
  "isWhiteSpace c \<longleftrightarrow>
     c = 0x9 \<or> c = 0xA \<or> c = 0xB \<or> c = 0xC \<or> c = 0xD \<or> c = 0x20 \<or> c = 0xA0 \<or>
     c = 0x1680 \<or> (0x2000 \<le> c \<and> c \<le> 0x200A) \<or> c = 0x2028 \<or> c = 0x2029 \<or>
     c = 0x202F \<or> c = 0x205F \<or> c = 0x3000 \<or> c = 0xFEFF"

definition trim :: "jsstring \<Rightarrow> jsstring" where
  "trim s = rev (dropWhile isWhiteSpace (rev (dropWhile isWhiteSpace s)))"

text \<open>
  The values the component tests for truthiness are strings, \<^verbatim>\<open>undefined\<close> and
  \<^verbatim>\<open>null\<close>: \<open>None\<close> stands for the last two, which are both falsy, and a string is
  truthy when it is not empty. \<^verbatim>\<open>a || b\<close> is \<open>a\<close> when \<open>a\<close> is truthy and \<open>b\<close> otherwise.
\<close>

fun truthy :: "jsstring option \<Rightarrow> bool" where
  "truthy None = False"
| "truthy (Some s) = (s \<noteq> [])"

definition js_or :: "jsstring option \<Rightarrow> jsstring option \<Rightarrow> jsstring option" where
  "js_or a b = (if truthy a then a else b)"

text \<open>
  What \<^verbatim>\<open>initializeOpenAI\<close> may throw: an \<^verbatim>\<open>Error\<close> object with its \<^verbatim>\<open>message\<close>, or any
  other value, represented by its string form \<^verbatim>\<open>String(err)\<close>.
\<close>

datatype thrown = ErrorObject jsstring | OtherValue jsstring

text \<open>\<^verbatim>\<open>err instanceof Error ? err.message : String(err)\<close>\<close>

fun describe :: "thrown \<Rightarrow> jsstring" where
  "describe (ErrorObject message) = message"
| "describe (OtherValue s) = s"

section \<open>The component and its collaborators\<close>

text \<open>
  The calls the component makes to its collaborators, in the order it makes them:
  \<^verbatim>\<open>localStorage\<close>, \<^verbatim>\<open>initializeOpenAI\<close> and the parent's \<^verbatim>\<open>onApiKeySet\<close>.
\<close>

datatype effect =
    GetItem jsstring
  | SetItem jsstring jsstring
  | RemoveItem jsstring
  | InitializeOpenAI jsstring
  | OnApiKeySet bool

text \<open>
  The three \<^verbatim>\<open>useState\<close> cells of \<^verbatim>\<open>ApiKeyInput\<close>, the browser's \<^verbatim>\<open>localStorage\<close> and the
  calls made so far. \<^verbatim>\<open>setItem\<close> is taken to succeed (no quota error) and the parent's
  callback to return normally.
\<close>

record world =
  apiKey :: jsstring
  error :: "jsstring option"
  isInitialized :: bool
  localStorage :: "jsstring \<rightharpoonup> jsstring"
  trace :: "effect list"

text \<open>
  The two places line 19 reads the environment credential from:
  \<^verbatim>\<open>import.meta.env.VITE_OPENAI_API_KEY\<close> and
  \<^verbatim>\<open>(window as any).process?.env?.VITE_OPENAI_API_KEY\<close>, each a string or \<^verbatim>\<open>undefined\<close>.
\<close>

record environment =
  metaEnv :: "jsstring option"
  windowEnv :: "jsstring option"

text \<open>
  \<^verbatim>\<open>initializeOpenAI\<close> is imported from another module: it is a parameter of the model,
  a function of the key that returns normally (\<open>None\<close>) or throws (\<open>Some err\<close>).
\<close>

type_synonym initializer = "jsstring \<Rightarrow> thrown option"

definition API_KEY_STORAGE_KEY :: jsstring where
  "API_KEY_STORAGE_KEY = str ''openai_api_key''"

definition emit :: "effect \<Rightarrow> world \<Rightarrow> world" where
  "emit e w = w\<lparr>trace := trace w @ [e]\<rparr>"

definition setItem :: "jsstring \<Rightarrow> jsstring \<Rightarrow> world \<Rightarrow> world" where
  "setItem k v w = emit (SetItem k v) (w\<lparr>localStorage := (localStorage w)(k \<mapsto> v)\<rparr>)"

definition removeItem :: "jsstring \<Rightarrow> world \<Rightarrow> world" where
  "removeItem k w = emit (RemoveItem k) (w\<lparr>localStorage := (localStorage w)(k := None)\<rparr>)"

definition onApiKeySet :: "bool \<Rightarrow> world \<Rightarrow> world" where
  "onApiKeySet b w = emit (OnApiKeySet b) w"

definition setApiKey :: "jsstring \<Rightarrow> world \<Rightarrow> world" where
  "setApiKey v w = w\<lparr>apiKey := v\<rparr>"

definition setError :: "jsstring option \<Rightarrow> world \<Rightarrow> world" where
  "setError e w = w\<lparr>error := e\<rparr>"

definition setIsInitialized :: "bool \<Rightarrow> world \<Rightarrow> world" where
  "setIsInitialized b w = w\<lparr>isInitialized := b\<rparr>"

text \<open>Line 19: the environment credential.\<close>

definition envApiKey :: "environment \<Rightarrow> jsstring option" where
  "envApiKey env = js_or (metaEnv env) (windowEnv env)"

text \<open>Line 25: \<^verbatim>\<open>envApiKey || savedApiKey\<close>.\<close>

definition keyToUse :: "environment \<Rightarrow> world \<Rightarrow> jsstring option" where
  "keyToUse env w = js_or (envApiKey env) (localStorage w API_KEY_STORAGE_KEY)"

text \<open>
  Lines 17 to 41, the effect that runs when the component mounts. \<^verbatim>\<open>getItem\<close> is called
  on line 22 whatever the environment holds.
\<close>

definition mount :: "environment \<Rightarrow> initializer \<Rightarrow> world \<Rightarrow> world" where
  "mount env init w =
     (let w1 = emit (GetItem API_KEY_STORAGE_KEY) w in
      case keyToUse env w of
        None \<Rightarrow> w1
      | Some k \<Rightarrow>
          if k = [] then w1
          else
            (let w2 = emit (InitializeOpenAI k) w1 in
             case init k of
               None \<Rightarrow> onApiKeySet True (setIsInitialized True (setApiKey k w2))
             | Some err \<Rightarrow>
                 (let w3 = setError (Some (str ''Failed to initialize with API key'')) w2 in
                  if \<not> truthy (envApiKey env) then removeItem API_KEY_STORAGE_KEY w3
                  else w3)))"

text \<open>Lines 43 to 60.\<close>

definition handleSubmit :: "initializer \<Rightarrow> world \<Rightarrow> world" where
  "handleSubmit init w =
     (let w1 = setError None w in
      if \<not> truthy (Some (trim (apiKey w))) then
        setError (Some (str ''API key is required'')) w1
      else
        (let w2 = emit (InitializeOpenAI (trim (apiKey w))) w1 in
         case init (trim (apiKey w)) of
           None \<Rightarrow>
             onApiKeySet True
               (setIsInitialized True (setItem API_KEY_STORAGE_KEY (trim (apiKey w)) w2))
         | Some err \<Rightarrow>
             setError (Some (str ''Failed to initialize OpenAI: '' @ describe err)) w2))"

text \<open>Lines 62 to 67.\<close>

definition handleReset :: "world \<Rightarrow> world" where
  "handleReset w =
     onApiKeySet False (setIsInitialized False (setApiKey [] (removeItem API_KEY_STORAGE_KEY w)))"

text \<open>Line 98, the text field's \<^verbatim>\<open>onChange\<close>.\<close>

definition handleChange :: "jsstring \<Rightarrow> world \<Rightarrow> world" where
  "handleChange v w = setApiKey v w"

section \<open>The rendered view and runs of the component\<close>

text \<open>
  The user's events. The view of lines 78 to 122 offers the reset button only while
  \<^verbatim>\<open>isInitialized\<close> holds, and the text field and the form only while it does not; an
  event the view does not offer changes nothing. The form's submit button is disabled
  while the trimmed field is empty (\<^verbatim>\<open>disabled={!apiKey.trim()}\<close>, line 117), so the view
  delivers a submission only when the trimmed field is not empty.
\<close>

datatype event = Change jsstring | Submit | Reset

fun step :: "initializer \<Rightarrow> world \<Rightarrow> event \<Rightarrow> world" where
  "step init w (Change v) = (if isInitialized w then w else handleChange v w)"
| "step init w Submit =
     (if isInitialized w \<or> \<not> truthy (Some (trim (apiKey w))) then w else handleSubmit init w)"
| "step init w Reset = (if isInitialized w then handleReset w else w)"

text \<open>Lines 12 to 14: the initial cells, over a given content of the storage.\<close>

definition initial :: "(jsstring \<rightharpoonup> jsstring) \<Rightarrow> world" where
  "initial store =
     \<lparr>apiKey = [], error = None, isInitialized = False, localStorage = store, trace = []\<rparr>"

text \<open>A run: the mount effect once, then the user's events in order.\<close>

definition run :: "environment \<Rightarrow> initializer \<Rightarrow> (jsstring \<rightharpoonup> jsstring) \<Rightarrow> event list \<Rightarrow> world" where
  "run env init store evs = foldl (step init) (mount env init (initial store)) evs"

text \<open>The arguments of the calls to \<^verbatim>\<open>initializeOpenAI\<close> and to the parent, read off a trace.\<close>

fun initCalls :: "effect list \<Rightarrow> jsstring list" where
  "initCalls [] = []"
| "initCalls (InitializeOpenAI k # es) = k # initCalls es"
| "initCalls (e # es) = initCalls es"

fun notifications :: "effect list \<Rightarrow> bool list" where
  "notifications [] = []"
| "notifications (OnApiKeySet b # es) = b # notifications es"
| "notifications (e # es) = notifications es"

section \<open>Properties of runs\<close>




definition parentInSync :: "world \<Rightarrow> bool" where
  "parentInSync w \<longleftrightarrow>
     (isInitialized w \<longleftrightarrow> notifications (trace w) \<noteq> [] \<and> last (notifications (trace w)))"

section \<open>Concrete scenarios\<close>

text \<open>
  Environments, an initializer that accepts the keys starting with \<^verbatim>\<open>sk-\<close> and throws an
  \<^verbatim>\<open>Error\<close> on the others, and worlds with a typed or a saved key, used to evaluate the
  model on concrete inputs.
\<close>

definition no_env :: environment where
  "no_env = \<lparr>metaEnv = None, windowEnv = None\<rparr>"

definition env_sk :: environment where
  "env_sk = \<lparr>metaEnv = Some (str ''sk-env''), windowEnv = None\<rparr>"

definition empty_env :: environment where
  "empty_env = \<lparr>metaEnv = Some [], windowEnv = None\<rparr>"

definition accepts_sk :: initializer where
  "accepts_sk k = (if take 3 k = str ''sk-'' then None else Some (ErrorObject (str ''Invalid API key'')))"

definition typed :: "jsstring \<Rightarrow> world" where
  "typed v = handleChange v (initial Map.empty)"

definition saved :: "jsstring \<Rightarrow> world" where
  "saved v = initial [API_KEY_STORAGE_KEY \<mapsto> v]"

section \<open>Basic facts\<close>

lemmas cell_defs =
  emit_def setItem_def removeItem_def onApiKeySet_def setApiKey_def setError_def
  setIsInitialized_def

lemma all_dropWhile: "(\<forall>x \<in> set (dropWhile P s). P x) \<longleftrightarrow> (\<forall>c \<in> set s. P c)"
  by (induction s) auto

lemma trim_Nil_iff: "trim s = [] \<longleftrightarrow> (\<forall>c \<in> set s. isWhiteSpace c)"
  by (simp add: trim_def all_dropWhile)

lemma initCalls_append: "initCalls (xs @ ys) = initCalls xs @ initCalls ys"
  by (induction xs rule: initCalls.induct) simp_all

lemma notifications_append: "notifications (xs @ ys) = notifications xs @ notifications ys"
  by (induction xs rule: notifications.induct) simp_all

lemma keyToUse_env: "envApiKey env = Some E \<Longrightarrow> E \<noteq> [] \<Longrightarrow> keyToUse env w = Some E"
  by (simp add: keyToUse_def js_or_def)

lemma keyToUse_saved: "\<not> truthy (envApiKey env) \<Longrightarrow> keyToUse env w = localStorage w API_KEY_STORAGE_KEY"
  by (simp add: keyToUse_def js_or_def)

lemma mount_none:
  "\<not> truthy (keyToUse env w) \<Longrightarrow> mount env init w = emit (GetItem API_KEY_STORAGE_KEY) w"
  by (cases "keyToUse env w") (simp_all add: mount_def)

lemma mount_ok:
  "keyToUse env w = Some k \<Longrightarrow> k \<noteq> [] \<Longrightarrow> init k = None \<Longrightarrow>
   mount env init w =
     w\<lparr>apiKey := k, isInitialized := True,
       trace := trace w @ [GetItem API_KEY_STORAGE_KEY, InitializeOpenAI k, OnApiKeySet True]\<rparr>"
  by (simp add: mount_def cell_defs)

lemma mount_fail:
  "keyToUse env w = Some k \<Longrightarrow> k \<noteq> [] \<Longrightarrow> init k = Some err \<Longrightarrow>
   mount env init w =
     (if truthy (envApiKey env)
      then w\<lparr>error := Some (str ''Failed to initialize with API key''),
             trace := trace w @ [GetItem API_KEY_STORAGE_KEY, InitializeOpenAI k]\<rparr>
      else w\<lparr>error := Some (str ''Failed to initialize with API key''),
             localStorage := (localStorage w)(API_KEY_STORAGE_KEY := None),
             trace := trace w @ [GetItem API_KEY_STORAGE_KEY, InitializeOpenAI k,
               RemoveItem API_KEY_STORAGE_KEY]\<rparr>)"
  by (simp add: mount_def cell_defs)

lemmas eval_defs =
  run_def initial_def mount_def keyToUse_def envApiKey_def js_or_def no_env_def env_sk_def
  accepts_sk_def handleSubmit_def handleReset_def handleChange_def cell_defs trim_def
  isWhiteSpace_def str_def saved_def typed_def








lemma sync_mount: "parentInSync (mount env init (initial store))"
  by (auto simp: parentInSync_def mount_def cell_defs initial_def Let_def split: option.splits)

lemma sync_step: "parentInSync w \<Longrightarrow> parentInSync (step init w e)"
  by (cases e)
    (auto simp: parentInSync_def handleSubmit_def handleReset_def handleChange_def cell_defs
      notifications_append Let_def split: option.splits)

lemma sync_foldl: "parentInSync w \<Longrightarrow> parentInSync (foldl (step init) w evs)"
  by (induction evs arbitrary: w) (simp_all add: sync_step)

lemma sync_run: "parentInSync (run env init store evs)"
  by (simp add: run_def sync_foldl sync_mount)

section \<open>Startup\<close>

text \<open>
  C3. When the environment credential \<open>E\<close> (not empty) and a stored credential both exist,
  \<open>E\<close> is the key chosen and the one \<^verbatim>\<open>initializeOpenAI\<close> is called with. Whenever the
  initializer returns normally on the chosen key \<open>k\<close>, the mount effect sets
  \<^verbatim>\<open>isInitialized\<close>, sets the field to \<open>k\<close> and calls the parent with \<^verbatim>\<open>true\<close>.
\<close>

theorem mount_prefers_environment:
  "(envApiKey env = Some E \<and> E \<noteq> [] \<and> localStorage w API_KEY_STORAGE_KEY = Some S \<longrightarrow>
      keyToUse env w = Some E \<and>
      initCalls (trace (mount env init w)) = initCalls (trace w) @ [E]) \<and>
   (keyToUse env w = Some k \<and> k \<noteq> [] \<and> init k = None \<longrightarrow>
      isInitialized (mount env init w) \<and>
      apiKey (mount env init w) = k \<and>
      trace (mount env init w) =
        trace w @ [GetItem API_KEY_STORAGE_KEY, InitializeOpenAI k, OnApiKeySet True])"
proof -
  have "initCalls (trace (mount env init w)) = initCalls (trace w) @ [E]"
    if "envApiKey env = Some E" and "E \<noteq> []"
  proof (cases "init E")
    case None
    then show ?thesis
      using that by (simp add: mount_ok keyToUse_env initCalls_append)
  next
    case (Some err)
    then show ?thesis
      using that by (simp add: mount_fail keyToUse_env initCalls_append)
  qed
  then show ?thesis
    by (simp add: mount_ok keyToUse_env)
qed

theorem mount_prefers_environment_witness:
  "envApiKey env_sk = Some (str ''sk-env'') \<and> str ''sk-env'' \<noteq> [] \<and>
   localStorage (saved (str ''sk-old'')) API_KEY_STORAGE_KEY = Some (str ''sk-old'') \<and>
   keyToUse env_sk (saved (str ''sk-old'')) = Some (str ''sk-env'') \<and>
   accepts_sk (str ''sk-env'') = None \<and>
   initCalls (trace (mount env_sk accepts_sk (saved (str ''sk-old'')))) = [str ''sk-env''] \<and>
   isInitialized (mount env_sk accepts_sk (saved (str ''sk-old''))) \<and>
   apiKey (mount env_sk accepts_sk (saved (str ''sk-old''))) = str ''sk-env'' \<and>
   notifications (trace (mount env_sk accepts_sk (saved (str ''sk-old'')))) = [True]"
proof -
  have e: "envApiKey env_sk = Some (str ''sk-env'')"
    by (simp add: envApiKey_def env_sk_def js_or_def str_def)
  have n: "str ''sk-env'' \<noteq> []"
    by (simp add: str_def)
  have s: "localStorage (saved (str ''sk-old'')) API_KEY_STORAGE_KEY = Some (str ''sk-old'')"
    by (simp add: saved_def initial_def)
  have t: "trace (saved (str ''sk-old'')) = []"
    by (simp add: saved_def initial_def)
  have i: "accepts_sk (str ''sk-env'') = None"
    by (simp add: accepts_sk_def str_def)
  show ?thesis
    using mount_prefers_environment [of env_sk "str ''sk-env''" "saved (str ''sk-old'')"
        "str ''sk-old''" accepts_sk "str ''sk-env''"] e n s i
    by (simp add: t)
qed

text \<open>
  C4. When \<^verbatim>\<open>initializeOpenAI\<close> throws on the chosen key, the mount effect sets the error to the
  fixed text \<^verbatim>\<open>Failed to initialize with API key\<close>, and calls \<^verbatim>\<open>removeItem\<close> on the storage
  key exactly when the environment gave no credential; otherwise the storage is unchanged.
  In particular, with no environment credential, a stored key \<open>S\<close> on which the initializer
  throws is gone from the storage after the mount.
\<close>

theorem mount_failure:
  "(keyToUse env w = Some k \<and> k \<noteq> [] \<and> init k = Some err \<longrightarrow>
      error (mount env init w) = Some (str ''Failed to initialize with API key'') \<and>
      trace (mount env init w) =
        trace w @ [GetItem API_KEY_STORAGE_KEY, InitializeOpenAI k] @
          (if truthy (envApiKey env) then [] else [RemoveItem API_KEY_STORAGE_KEY]) \<and>
      (RemoveItem API_KEY_STORAGE_KEY \<in> set (drop (length (trace w)) (trace (mount env init w)))
         \<longleftrightarrow> \<not> truthy (envApiKey env)) \<and>
      localStorage (mount env init w) =
        (if truthy (envApiKey env) then localStorage w
         else (localStorage w)(API_KEY_STORAGE_KEY := None)) \<and>
      isInitialized (mount env init w) = isInitialized w \<and>
      apiKey (mount env init w) = apiKey w) \<and>
   (\<not> truthy (envApiKey env) \<and> localStorage w API_KEY_STORAGE_KEY = Some S \<and> S \<noteq> [] \<and>
    init S = Some err \<longrightarrow>
      localStorage (mount env init w) API_KEY_STORAGE_KEY = None)"
  by (simp add: mount_fail keyToUse_saved)

theorem mount_failure_witness:
  "keyToUse no_env (saved (str ''pk-old'')) = Some (str ''pk-old'') \<and> str ''pk-old'' \<noteq> [] \<and>
   accepts_sk (str ''pk-old'') = Some (ErrorObject (str ''Invalid API key'')) \<and>
   \<not> truthy (envApiKey no_env) \<and>
   localStorage (saved (str ''pk-old'')) API_KEY_STORAGE_KEY = Some (str ''pk-old'') \<and>
   error (mount no_env accepts_sk (saved (str ''pk-old''))) =
     Some (str ''Failed to initialize with API key'') \<and>
   trace (mount no_env accepts_sk (saved (str ''pk-old''))) =
     [GetItem API_KEY_STORAGE_KEY, InitializeOpenAI (str ''pk-old''), RemoveItem API_KEY_STORAGE_KEY] \<and>
   localStorage (mount no_env accepts_sk (saved (str ''pk-old''))) API_KEY_STORAGE_KEY = None"
proof -
  have e: "\<not> truthy (envApiKey no_env)"
    by (simp add: envApiKey_def no_env_def js_or_def)
  have s: "localStorage (saved (str ''pk-old'')) API_KEY_STORAGE_KEY = Some (str ''pk-old'')"
    by (simp add: saved_def initial_def)
  have k: "keyToUse no_env (saved (str ''pk-old'')) = Some (str ''pk-old'')"
    by (simp add: keyToUse_saved e s)
  have n: "str ''pk-old'' \<noteq> []"
    by (simp add: str_def)
  have t: "trace (saved (str ''pk-old'')) = []"
    by (simp add: saved_def initial_def)
  have i: "accepts_sk (str ''pk-old'') = Some (ErrorObject (str ''Invalid API key''))"
    by (simp add: accepts_sk_def str_def)
  show ?thesis
    using mount_failure [of no_env "saved (str ''pk-old'')" "str ''pk-old''" accepts_sk
        "ErrorObject (str ''Invalid API key'')" "str ''pk-old''"] e s k n i
    by (simp add: t)
qed

text \<open>
  C10. An empty environment credential counts as absent. An empty first source falls through
  to the second, and \<^verbatim>\<open>envApiKey\<close> is falsy exactly when neither source holds a non-empty
  string. Whenever it is falsy (the variable set but empty included), the key chosen is the
  stored one, the mount effect does what it does with no environment at all, and with no
  stored key either (none, or an empty one) it only reads the storage.
\<close>

theorem empty_environment_is_absent:
  "(metaEnv env = Some [] \<longrightarrow> envApiKey env = windowEnv env) \<and>
   (\<not> truthy (envApiKey env) \<longleftrightarrow> \<not> truthy (metaEnv env) \<and> \<not> truthy (windowEnv env)) \<and>
   (\<not> truthy (envApiKey env) \<longrightarrow>
      keyToUse env w = localStorage w API_KEY_STORAGE_KEY \<and>
      mount env init w = mount no_env init w \<and>
      (\<not> truthy (localStorage w API_KEY_STORAGE_KEY) \<longrightarrow>
         mount env init w = emit (GetItem API_KEY_STORAGE_KEY) w))"
proof -
  have a: "metaEnv env = Some [] \<longrightarrow> envApiKey env = windowEnv env"
    by (simp add: envApiKey_def js_or_def)
  have c: "\<not> truthy (envApiKey env) \<longleftrightarrow> \<not> truthy (metaEnv env) \<and> \<not> truthy (windowEnv env)"
    by (simp add: envApiKey_def js_or_def)
  have n: "\<not> truthy (envApiKey no_env)"
    by (simp add: envApiKey_def no_env_def js_or_def)
  have b: "keyToUse env w = localStorage w API_KEY_STORAGE_KEY \<and>
      mount env init w = mount no_env init w \<and>
      (\<not> truthy (localStorage w API_KEY_STORAGE_KEY) \<longrightarrow>
         mount env init w = emit (GetItem API_KEY_STORAGE_KEY) w)"
    if e: "\<not> truthy (envApiKey env)"
  proof -
    have k: "keyToUse env w = localStorage w API_KEY_STORAGE_KEY"
      using e by (simp add: keyToUse_saved)
    have k0: "keyToUse no_env w = localStorage w API_KEY_STORAGE_KEY"
      using n by (simp add: keyToUse_saved)
    have m: "mount env init w = mount no_env init w"
      using e n by (simp add: mount_def k k0 Let_def split: option.splits)
    have z: "mount env init w = emit (GetItem API_KEY_STORAGE_KEY) w"
      if "\<not> truthy (localStorage w API_KEY_STORAGE_KEY)"
      using that by (simp add: mount_none k)
    show ?thesis
      using k m z by blast
  qed
  show ?thesis
    using a b c by blast
qed

theorem empty_environment_is_absent_witness:
  "metaEnv empty_env = Some [] \<and> windowEnv empty_env = None \<and>
   envApiKey empty_env = None \<and>
   keyToUse empty_env (saved (str ''sk-old'')) = Some (str ''sk-old'') \<and>
   apiKey (mount empty_env accepts_sk (saved (str ''sk-old''))) = str ''sk-old'' \<and>
   isInitialized (mount empty_env accepts_sk (saved (str ''sk-old''))) \<and>
   \<not> truthy (localStorage (initial Map.empty) API_KEY_STORAGE_KEY) \<and>
   trace (mount empty_env accepts_sk (initial Map.empty)) = [GetItem API_KEY_STORAGE_KEY] \<and>
   \<not> isInitialized (mount empty_env accepts_sk (initial Map.empty))"
proof -
  have m: "metaEnv empty_env = Some [] \<and> windowEnv empty_env = None"
    by (simp add: empty_env_def)
  have e: "envApiKey empty_env = None"
    using empty_environment_is_absent [of empty_env "initial Map.empty" accepts_sk] m
    by simp
  have f: "\<not> truthy (envApiKey empty_env)"
    by (simp add: e)
  have s: "localStorage (saved (str ''sk-old'')) API_KEY_STORAGE_KEY = Some (str ''sk-old'')"
    by (simp add: saved_def initial_def)
  have n: "str ''sk-old'' \<noteq> []"
    by (simp add: str_def)
  have i: "accepts_sk (str ''sk-old'') = None"
    by (simp add: accepts_sk_def str_def)
  have k0: "keyToUse no_env (saved (str ''sk-old'')) = Some (str ''sk-old'')"
    by (simp add: keyToUse_def envApiKey_def no_env_def js_or_def s)
  have z: "\<not> truthy (localStorage (initial Map.empty) API_KEY_STORAGE_KEY)"
    by (simp add: initial_def)
  have t: "trace (initial Map.empty) = [] \<and> \<not> isInitialized (initial Map.empty)"
    by (simp add: initial_def)
  have A: "mount empty_env accepts_sk (saved (str ''sk-old'')) =
           mount no_env accepts_sk (saved (str ''sk-old''))"
    using empty_environment_is_absent [of empty_env "saved (str ''sk-old'')" accepts_sk] f
    by blast
  have K: "keyToUse empty_env (saved (str ''sk-old'')) = Some (str ''sk-old'')"
    using empty_environment_is_absent [of empty_env "saved (str ''sk-old'')" accepts_sk] f s
    by simp
  have B: "mount empty_env accepts_sk (initial Map.empty) =
           emit (GetItem API_KEY_STORAGE_KEY) (initial Map.empty)"
    using empty_environment_is_absent [of empty_env "initial Map.empty" accepts_sk] f z
    by blast
  show ?thesis
    using m e z t K
    by (simp add: A B mount_ok [where init = accepts_sk, OF k0 n i] emit_def)
qed

text \<open>
  C7, as the code has it. With a non-empty environment credential \<open>E\<close> on which the
  initializer returns normally, the mount effect reads the storage key (line 22) but does
  not use what it holds: whatever the storage, it sets the field to \<open>E\<close>, sets
  \<^verbatim>\<open>isInitialized\<close> and leaves the storage as it is. A reset then removes the storage key only;
  the environment is not its to change, and mounting again initializes from \<open>E\<close> again.
\<close>

theorem environment_startup_and_reset:
  assumes "envApiKey env = Some E" and "E \<noteq> []" and "init E = None"
  shows "mount env init w =
           w\<lparr>apiKey := E, isInitialized := True,
             trace := trace w @ [GetItem API_KEY_STORAGE_KEY, InitializeOpenAI E, OnApiKeySet True]\<rparr> \<and>
         localStorage (handleReset (mount env init w)) =
           (localStorage w)(API_KEY_STORAGE_KEY := None) \<and>
         \<not> isInitialized (handleReset (mount env init w)) \<and>
         mount env init (handleReset (mount env init w)) =
           (handleReset (mount env init w))
             \<lparr>apiKey := E, isInitialized := True,
              trace := trace (handleReset (mount env init w)) @
                [GetItem API_KEY_STORAGE_KEY, InitializeOpenAI E, OnApiKeySet True]\<rparr>"
proof -
  have k: "keyToUse env v = Some E" for v
    using assms by (simp add: keyToUse_env)
  have m: "mount env init v =
      v\<lparr>apiKey := E, isInitialized := True,
        trace := trace v @ [GetItem API_KEY_STORAGE_KEY, InitializeOpenAI E, OnApiKeySet True]\<rparr>"
    for v
    using assms by (simp add: mount_ok [OF k])
  have r: "localStorage (handleReset (mount env init w)) =
           (localStorage w)(API_KEY_STORAGE_KEY := None) \<and>
         \<not> isInitialized (handleReset (mount env init w))"
    by (simp add: m [of w] handleReset_def cell_defs)
  show ?thesis
    using m [of w] m [of "handleReset (mount env init w)"] r by blast
qed

theorem environment_startup_and_reset_witness:
  "envApiKey env_sk = Some (str ''sk-env'') \<and> str ''sk-env'' \<noteq> [] \<and>
   accepts_sk (str ''sk-env'') = None \<and>
   isInitialized (mount env_sk accepts_sk (saved (str ''sk-old''))) \<and>
   apiKey (mount env_sk accepts_sk (saved (str ''sk-old''))) = str ''sk-env'' \<and>
   localStorage (handleReset (mount env_sk accepts_sk (saved (str ''sk-old'')))) API_KEY_STORAGE_KEY = None \<and>
   isInitialized (mount env_sk accepts_sk (handleReset (mount env_sk accepts_sk (saved (str ''sk-old''))))) \<and>
   apiKey (mount env_sk accepts_sk (handleReset (mount env_sk accepts_sk (saved (str ''sk-old''))))) =
     str ''sk-env''"
proof -
  have e: "envApiKey env_sk = Some (str ''sk-env'')"
    by (simp add: envApiKey_def env_sk_def js_or_def str_def)
  have n: "str ''sk-env'' \<noteq> []"
    by (simp add: str_def)
  have i: "accepts_sk (str ''sk-env'') = None"
    by (simp add: accepts_sk_def str_def)
  note T = environment_startup_and_reset [where init = accepts_sk and
      w = "saved (str ''sk-old'')", OF e n i]
  have a: "isInitialized (mount env_sk accepts_sk (saved (str ''sk-old''))) \<and>
           apiKey (mount env_sk accepts_sk (saved (str ''sk-old''))) = str ''sk-env''"
    by (simp add: T [THEN conjunct1])
  have b: "localStorage (handleReset (mount env_sk accepts_sk (saved (str ''sk-old''))))
             API_KEY_STORAGE_KEY = None"
    by (simp add: T [THEN conjunct2, THEN conjunct1])
  have c: "isInitialized (mount env_sk accepts_sk
             (handleReset (mount env_sk accepts_sk (saved (str ''sk-old''))))) \<and>
           apiKey (mount env_sk accepts_sk
             (handleReset (mount env_sk accepts_sk (saved (str ''sk-old''))))) = str ''sk-env''"
    by (simp add: T [THEN conjunct2, THEN conjunct2, THEN conjunct2])
  show ?thesis
    using e n i a b c by blast
qed

text \<open>
  C7, as stated, fails where it says the storage key is not consulted: with the environment
  credential \<^verbatim>\<open>sk-env\<close> accepted, the mount effect still calls \<^verbatim>\<open>getItem\<close> on the key.
\<close>

theorem environment_startup_reads_storage:
  "envApiKey env_sk = Some (str ''sk-env'') \<and>
   accepts_sk (str ''sk-env'') = None \<and>
   isInitialized (mount env_sk accepts_sk (saved (str ''sk-old''))) \<and>
   trace (mount env_sk accepts_sk (saved (str ''sk-old''))) =
     [GetItem API_KEY_STORAGE_KEY, InitializeOpenAI (str ''sk-env''), OnApiKeySet True]"
  by (simp add: eval_defs)

section \<open>Manual submission\<close>

text \<open>
  C1. When the field holds \<open>C\<close>, \<open>trim C\<close> is not empty and \<^verbatim>\<open>initializeOpenAI\<close> returns normally
  on \<open>trim C\<close>, \<^verbatim>\<open>handleSubmit\<close> sets \<^verbatim>\<open>isInitialized\<close>, stores exactly \<open>trim C\<close> under the
  storage key (touching no other key), and calls the initializer, \<^verbatim>\<open>setItem\<close> and the parent
  with \<^verbatim>\<open>true\<close>, in this order.
\<close>

theorem submit_success:
  assumes "apiKey w = C" and "trim C \<noteq> []" and "init (trim C) = None"
  shows "isInitialized (handleSubmit init w) \<and>
         localStorage (handleSubmit init w) = (localStorage w)(API_KEY_STORAGE_KEY \<mapsto> trim C) \<and>
         localStorage (handleSubmit init w) API_KEY_STORAGE_KEY = Some (trim C) \<and>
         trace (handleSubmit init w) =
           trace w @ [InitializeOpenAI (trim C), SetItem API_KEY_STORAGE_KEY (trim C), OnApiKeySet True] \<and>
         error (handleSubmit init w) = None \<and>
         apiKey (handleSubmit init w) = C"
  using assms by (simp add: handleSubmit_def cell_defs)

theorem submit_success_witness:
  "apiKey (typed (str '' sk-1 '')) = str '' sk-1 '' \<and> trim (str '' sk-1 '') \<noteq> [] \<and>
   accepts_sk (trim (str '' sk-1 '')) = None \<and>
   isInitialized (handleSubmit accepts_sk (typed (str '' sk-1 ''))) \<and>
   localStorage (handleSubmit accepts_sk (typed (str '' sk-1 ''))) API_KEY_STORAGE_KEY = Some (str ''sk-1'') \<and>
   notifications (trace (handleSubmit accepts_sk (typed (str '' sk-1 '')))) = [True]"
proof -
  have a: "apiKey (typed (str '' sk-1 '')) = str '' sk-1 ''"
    by (simp add: typed_def handleChange_def setApiKey_def initial_def)
  have t: "trim (str '' sk-1 '') = str ''sk-1''"
    by (simp add: trim_def isWhiteSpace_def str_def)
  have i: "accepts_sk (trim (str '' sk-1 '')) = None"
    by (simp add: t) (simp add: accepts_sk_def str_def)
  have n: "trim (str '' sk-1 '') \<noteq> []"
    by (simp add: t) (simp add: str_def)
  have e: "trace (typed (str '' sk-1 '')) = []"
    by (simp add: typed_def handleChange_def setApiKey_def initial_def)
  show ?thesis
    using submit_success [where init = accepts_sk, OF a n i] a n i by (simp add: t e)
qed

text \<open>
  C2. When the field is empty or holds only white space, \<^verbatim>\<open>handleSubmit\<close> sets the error to
  \<^verbatim>\<open>API key is required\<close> and makes no call at all: the initializer is not called, the
  storage is neither written nor changed, and \<^verbatim>\<open>isInitialized\<close> keeps its value.
\<close>

theorem submit_blank:
  assumes "\<forall>c \<in> set (apiKey w). isWhiteSpace c"
  shows "error (handleSubmit init w) = Some (str ''API key is required'') \<and>
         trace (handleSubmit init w) = trace w \<and>
         localStorage (handleSubmit init w) = localStorage w \<and>
         isInitialized (handleSubmit init w) = isInitialized w \<and>
         apiKey (handleSubmit init w) = apiKey w"
proof -
  have "trim (apiKey w) = []"
    using assms by (simp add: trim_Nil_iff)
  then show ?thesis
    by (simp add: handleSubmit_def cell_defs)
qed

theorem submit_blank_witness:
  "list_all isWhiteSpace (apiKey (typed [0x20, 0x9, 0xA0])) \<and>
   error (handleSubmit accepts_sk (typed [0x20, 0x9, 0xA0])) = Some (str ''API key is required'') \<and>
   trace (handleSubmit accepts_sk (typed [0x20, 0x9, 0xA0])) = [] \<and>
   \<not> isInitialized (handleSubmit accepts_sk (typed [0x20, 0x9, 0xA0]))"
proof -
  have a: "apiKey (typed [0x20, 0x9, 0xA0]) = [0x20, 0x9, 0xA0]"
    by (simp add: typed_def handleChange_def setApiKey_def initial_def)
  have b: "\<forall>c \<in> set (apiKey (typed [0x20, 0x9, 0xA0])). isWhiteSpace c"
    by (simp add: a isWhiteSpace_def)
  have c: "trace (typed [0x20, 0x9, 0xA0]) = [] \<and> \<not> isInitialized (typed [0x20, 0x9, 0xA0])"
    by (simp add: typed_def handleChange_def setApiKey_def initial_def)
  show ?thesis
    using submit_blank [OF b, of accepts_sk] b c by (simp add: list_all_iff)
qed

text \<open>
  C8. When \<open>trim C\<close> is not empty and \<^verbatim>\<open>initializeOpenAI\<close> throws \<open>err\<close> on it, \<^verbatim>\<open>handleSubmit\<close>
  sets the error to \<^verbatim>\<open>Failed to initialize OpenAI: \<close> followed by the message of \<open>err\<close> when
  it is an \<^verbatim>\<open>Error\<close> and by its string form otherwise; the storage is unchanged, nothing
  but the initializer is called, and \<^verbatim>\<open>isInitialized\<close> keeps its value.
\<close>

theorem submit_failure:
  assumes "apiKey w = C" and "trim C \<noteq> []" and "init (trim C) = Some err"
  shows "error (handleSubmit init w) =
           Some (str ''Failed to initialize OpenAI: '' @
             (case err of ErrorObject message \<Rightarrow> message | OtherValue s \<Rightarrow> s)) \<and>
         localStorage (handleSubmit init w) = localStorage w \<and>
         isInitialized (handleSubmit init w) = isInitialized w \<and>
         trace (handleSubmit init w) = trace w @ [InitializeOpenAI (trim C)]"
  using assms by (cases err) (simp_all add: handleSubmit_def cell_defs)

theorem submit_failure_witness:
  "apiKey (typed (str ''pk-1 '')) = str ''pk-1 '' \<and> trim (str ''pk-1 '') \<noteq> [] \<and>
   accepts_sk (trim (str ''pk-1 '')) = Some (ErrorObject (str ''Invalid API key'')) \<and>
   error (handleSubmit accepts_sk (typed (str ''pk-1 ''))) =
     Some (str ''Failed to initialize OpenAI: Invalid API key'') \<and>
   localStorage (handleSubmit accepts_sk (typed (str ''pk-1 ''))) API_KEY_STORAGE_KEY = None \<and>
   \<not> isInitialized (handleSubmit accepts_sk (typed (str ''pk-1 '')))"
proof -
  have a: "apiKey (typed (str ''pk-1 '')) = str ''pk-1 ''"
    by (simp add: typed_def handleChange_def setApiKey_def initial_def)
  have t: "trim (str ''pk-1 '') = str ''pk-1''"
    by (simp add: trim_def isWhiteSpace_def str_def)
  have n: "trim (str ''pk-1 '') \<noteq> []"
    by (simp add: t) (simp add: str_def)
  have i: "accepts_sk (trim (str ''pk-1 '')) = Some (ErrorObject (str ''Invalid API key''))"
    by (simp add: t) (simp add: accepts_sk_def str_def)
  have c: "localStorage (typed (str ''pk-1 '')) = Map.empty \<and> \<not> isInitialized (typed (str ''pk-1 ''))"
    by (simp add: typed_def handleChange_def setApiKey_def initial_def)
  have s: "str ''Failed to initialize OpenAI: '' @ str ''Invalid API key'' =
           str ''Failed to initialize OpenAI: Invalid API key''"
    by (simp add: str_def)
  show ?thesis
    using submit_failure [where init = accepts_sk, OF a n i] a n i c by (simp add: s)
qed

section \<open>Reset\<close>

text \<open>
  C9. Resetting twice leaves the same cells and the same storage as resetting once, and the
  parent is told \<^verbatim>\<open>false\<close> by the second reset as by the first: each reset calls
  \<^verbatim>\<open>removeItem\<close> and the parent with \<^verbatim>\<open>false\<close>.
\<close>

theorem reset_idempotent:
  "apiKey (handleReset (handleReset w)) = apiKey (handleReset w) \<and>
   error (handleReset (handleReset w)) = error (handleReset w) \<and>
   isInitialized (handleReset (handleReset w)) = isInitialized (handleReset w) \<and>
   localStorage (handleReset (handleReset w)) = localStorage (handleReset w) \<and>
   trace (handleReset w) = trace w @ [RemoveItem API_KEY_STORAGE_KEY, OnApiKeySet False] \<and>
   trace (handleReset (handleReset w)) =
     trace (handleReset w) @ [RemoveItem API_KEY_STORAGE_KEY, OnApiKeySet False] \<and>
   last (notifications (trace (handleReset (handleReset w)))) =
     last (notifications (trace (handleReset w)))"
  by (simp add: handleReset_def cell_defs notifications_append)

section \<open>Runs\<close>



text \<open>
  C6, as the code has it. The mount effect calls the parent with \<^verbatim>\<open>true\<close> exactly when a key
  is found and the initializer accepts it, and not at all otherwise; \<^verbatim>\<open>handleSubmit\<close> calls it
  with \<^verbatim>\<open>true\<close> exactly when the trimmed field is not empty and the initializer accepts
  it, and not at all otherwise; \<^verbatim>\<open>handleReset\<close> calls it with \<^verbatim>\<open>false\<close>; typing does not call
  it. In every state of a run \<^verbatim>\<open>isInitialized\<close> holds exactly when the parent has been called
  and its last call was with \<^verbatim>\<open>true\<close>.
\<close>

theorem parent_notifications:
  "notifications (trace (mount env init w)) =
     notifications (trace w) @
       (case keyToUse env w of
          None \<Rightarrow> []
        | Some k \<Rightarrow> if k \<noteq> [] \<and> init k = None then [True] else []) \<and>
   notifications (trace (handleSubmit init w)) =
     notifications (trace w) @
       (if trim (apiKey w) \<noteq> [] \<and> init (trim (apiKey w)) = None then [True] else []) \<and>
   notifications (trace (handleReset w)) = notifications (trace w) @ [False] \<and>
   notifications (trace (handleChange v w)) = notifications (trace w) \<and>
   (isInitialized (run env init store evs) \<longleftrightarrow>
      notifications (trace (run env init store evs)) \<noteq> [] \<and>
      last (notifications (trace (run env init store evs))))"
proof -
  have m: "notifications (trace (mount env init w)) =
     notifications (trace w) @
       (case keyToUse env w of
          None \<Rightarrow> []
        | Some k \<Rightarrow> if k \<noteq> [] \<and> init k = None then [True] else [])"
    by (auto simp: mount_def cell_defs notifications_append Let_def split: option.splits)
  have s: "notifications (trace (handleSubmit init w)) =
     notifications (trace w) @
       (if trim (apiKey w) \<noteq> [] \<and> init (trim (apiKey w)) = None then [True] else [])"
    by (auto simp: handleSubmit_def cell_defs notifications_append Let_def split: option.splits)
  have r: "notifications (trace (handleReset w)) = notifications (trace w) @ [False]"
    by (simp add: handleReset_def cell_defs notifications_append)
  have c: "notifications (trace (handleChange v w)) = notifications (trace w)"
    by (simp add: handleChange_def cell_defs)
  have y: "isInitialized (run env init store evs) \<longleftrightarrow>
      notifications (trace (run env init store evs)) \<noteq> [] \<and>
      last (notifications (trace (run env init store evs)))"
    using sync_run [of env init store evs] by (simp add: parentInSync_def)
  show ?thesis
    using m s r c y by blast
qed

theorem parent_notifications_witness:
  "notifications (trace (mount env_sk accepts_sk (saved (str ''sk-old'')))) = [True] \<and>
   notifications (trace (handleSubmit accepts_sk (typed (str ''pk-1'')))) = [] \<and>
   notifications (trace (handleReset (initial Map.empty))) = [False] \<and>
   isInitialized (run env_sk accepts_sk Map.empty []) \<and>
   last (notifications (trace (run env_sk accepts_sk Map.empty [])))"
  using parent_notifications [where env = env_sk and init = accepts_sk and
      w = "saved (str ''sk-old'')" and store = Map.empty and evs = "[]"]
    parent_notifications [where env = env_sk and init = accepts_sk and
      w = "typed (str ''pk-1'')"]
    parent_notifications [where env = env_sk and init = accepts_sk and
      w = "initial Map.empty"]
  by (simp add: eval_defs)

text \<open>
  C6, as stated, fails at a mount that finds no key: the effect reads the storage and
  returns, and the parent is not called.
\<close>

theorem mount_without_key_is_silent:
  "keyToUse no_env (initial Map.empty) = None \<and>
   trace (mount no_env accepts_sk (initial Map.empty)) = [GetItem API_KEY_STORAGE_KEY] \<and>
   notifications (trace (mount no_env accepts_sk (initial Map.empty))) = [] \<and>
   \<not> isInitialized (mount no_env accepts_sk (initial Map.empty))"
  by (simp add: initial_def mount_def keyToUse_def envApiKey_def js_or_def no_env_def cell_defs)

end
